theory Spec2Isabelle
  imports Complex_Main
begin

section \<open>JavaScript values\<close>

text \<open>
  The methods of \<open>QueryBuilder\<close> (src/lib/query.js) inspect their arguments at run
  time (truthiness, \<open>typeof\<close>, \<open>Array.isArray\<close>, \<open>in\<close>), so arguments are values of a
  small JavaScript datatype.  A number is a real: every finite double is one, and the
  builder only stores numbers, compares them with 0 and prints them, so no rounding
  is involved.  NaN and the infinities are left out (\<open>skip\<close> and \<open>limit\<close> reject NaN by
  their assertion).  An object is the list of its own enumerable properties in
  enumeration order, and functions are left out.
\<close>

datatype jsval =
    JUndefined
  | JNull
  | JBool bool
  | JNum real
  | JStr string
  | JArr "jsval list"
  | JObj "(string \<times> jsval) list"

fun truthy :: "jsval \<Rightarrow> bool" where
  "truthy JUndefined = False"
| "truthy JNull = False"
| "truthy (JBool b) = b"
| "truthy (JNum n) = (n \<noteq> 0)"
| "truthy (JStr s) = (s \<noteq> [])"
| "truthy (JArr xs) = True"
| "truthy (JObj kvs) = True"

fun typeof :: "jsval \<Rightarrow> string" where
  "typeof JUndefined = ''undefined''"
| "typeof JNull = ''object''"
| "typeof (JBool b) = ''boolean''"
| "typeof (JNum n) = ''number''"
| "typeof (JStr s) = ''string''"
| "typeof (JArr xs) = ''object''"
| "typeof (JObj kvs) = ''object''"

fun isArray :: "jsval \<Rightarrow> bool" where
  "isArray (JArr xs) = True"
| "isArray v = False"

text \<open>The decimal digits of a natural number: the text of an array index.\<close>

function show_nat :: "nat \<Rightarrow> string" where
  "show_nat n =
     (if n < 10 then [char_of (48 + n)]
      else show_nat (n div 10) @ [char_of (48 + n mod 10)])"
  by pat_completeness auto
termination
  by (relation "measure id") auto

declare show_nat.simps [simp del]

text \<open>The index keys \<open>"0"\<close>, \<open>"1"\<close>, ... that \<open>for ... in\<close> and \<open>Object.keys\<close> give for
  an array (or a string) of \<open>n\<close> elements.\<close>

definition index_keys :: "nat \<Rightarrow> string list" where
  "index_keys n = map show_nat [0..<n]"

text \<open>Own enumerable properties of a value, in enumeration order.\<close>

fun entries :: "jsval \<Rightarrow> (string \<times> jsval) list" where
  "entries (JObj kvs) = kvs"
| "entries (JArr xs) = zip (index_keys (length xs)) xs"
| "entries v = []"

definition own_keys :: "jsval \<Rightarrow> string list" where
  "own_keys v = map fst (entries v)"

text \<open>\<open>key in item\<close> for an array or a plain object.  The only keys the builder tests
  are decimal indices, which no prototype defines, so own properties decide.\<close>

definition js_in :: "string \<Rightarrow> jsval \<Rightarrow> bool" where
  "js_in key item = (key \<in> set (own_keys item))"

text \<open>\<open>item[key]\<close>: the property's value, \<open>undefined\<close> when there is none.\<close>

definition get_prop :: "jsval \<Rightarrow> string \<Rightarrow> jsval" where
  "get_prop item key =
     (case map_of (entries item) key of None \<Rightarrow> JUndefined | Some v \<Rightarrow> v)"

datatype error =
    AssertionError string
  | Error string
  | TypeError string

text \<open>\<open>Object.keys(v)\<close>: throws on \<open>undefined\<close> and \<open>null\<close>; a string has its indices
  as keys, a number or boolean has none.\<close>

fun object_keys :: "jsval \<Rightarrow> error + string list" where
  "object_keys JUndefined = Inl (TypeError ''Cannot convert undefined or null to object'')"
| "object_keys JNull = Inl (TypeError ''Cannot convert undefined or null to object'')"
| "object_keys (JStr s) = Inr (index_keys (length s))"
| "object_keys v = Inr (own_keys v)"

text \<open>\<open>Array.prototype.join\<close> on an array of strings.\<close>

fun join :: "string \<Rightarrow> string list \<Rightarrow> string" where
  "join sep [] = []"
| "join sep [x] = x"
| "join sep (x # y # ys) = x @ sep @ join sep (y # ys)"

text \<open>\<open>String.prototype.trim\<close>: the white space and line terminators among the
  code units below 256.\<close>

definition is_space :: "char \<Rightarrow> bool" where
  "is_space c = (c \<in> {CHR 0x09, CHR 0x0A, CHR 0x0B, CHR 0x0C, CHR 0x0D, CHR 0x20, CHR 0xA0})"

definition trim :: "string \<Rightarrow> string" where
  "trim s = rev (dropWhile is_space (rev (dropWhile is_space s)))"


section \<open>The helpers of utils.js and the text of a number\<close>

text \<open>
  query.js imports \<open>sqlEscape\<close>, \<open>sqlEscapeId\<close>, \<open>sqlFormat\<close>, \<open>sqlFormatObject\<close>,
  \<open>sqlUpdateString\<close> and \<open>sqlLimitString\<close> from \<open>./utils\<close>, which is not among the
  sources.  The builder takes them as a parameter: every general theorem below holds
  for all six functions, whatever they compute.

  The seventh field is the text JavaScript gives a number inside a template literal
  (\<open>LIMIT ${ d.limitRows }\<close> in \<open>build\<close>): the digits of a small integer, an exponent
  form from 1e21 on, a decimal point for a fraction.  It is a parameter
  too, so no theorem rests on how a number is printed.
\<close>

record utils =
  sqlEscape :: "jsval \<Rightarrow> string"
  sqlEscapeId :: "string \<Rightarrow> string"
  sqlFormat :: "string \<Rightarrow> jsval \<Rightarrow> string"
  sqlFormatObject :: "string \<Rightarrow> jsval \<Rightarrow> string"
  sqlUpdateString :: "jsval \<Rightarrow> string"
  sqlLimitString :: "jsval \<Rightarrow> jsval \<Rightarrow> string"
  numberToString :: "real \<Rightarrow> string"


section \<open>The builder\<close>

text \<open>
  \<open>this._tableName\<close> and the fields of \<open>this._data\<close> (prefixed \<open>d_\<close>, as \<open>build\<close> calls
  the object \<open>d\<close>).  \<open>update\<close>, \<open>insert\<close>, \<open>delete\<close> and \<open>sql\<close> start as \<open>null\<close> (\<open>None\<close>).
  \<open>_execCallback\<close> is only read by \<open>exec\<close>, which is not modelled.
\<close>

record QueryBuilder =
  tableName :: string
  d_fields :: string
  d_conditions :: "string list"
  d_type :: string
  d_update :: "string option"
  d_insert :: "string option"
  d_delete :: "string option"
  d_sql :: "string option"
  d_orderFields :: string
  d_orderBy :: string
  d_skipRows :: real
  d_limitRows :: real
  d_limit :: string

text \<open>A method either returns (\<open>Inr\<close>) or throws (\<open>Inl\<close>); in both cases the builder
  keeps the assignments made so far, so the state is returned beside the outcome.\<close>

type_synonym 'a outcome = "(error + 'a) \<times> QueryBuilder"

definition initial :: "string \<Rightarrow> QueryBuilder" where
  "initial table =
     \<lparr> tableName = table, d_fields = ''*'', d_conditions = [], d_type = '''',
       d_update = None, d_insert = None, d_delete = None, d_sql = None,
       d_orderFields = '''', d_orderBy = '''', d_skipRows = 0, d_limitRows = 0,
       d_limit = '''' \<rparr>"

text \<open>The constructor, on \<open>options.table\<close>.\<close>

definition new_QueryBuilder :: "jsval \<Rightarrow> error + QueryBuilder" where
  "new_QueryBuilder table =
     (if \<not> truthy table then Inl (AssertionError ''must provide table name'')
      else case table of
             JStr s \<Rightarrow> Inr (initial s)
           | _ \<Rightarrow> Inl (AssertionError ''table name must be a string''))"

definition cannot_change :: "string \<Rightarrow> string" where
  \<open>cannot_change t = ''cannot change query type after it was set to "'' @ t @ ''"''\<close>

text \<open>\<open>format(tpl, values)\<close>\<close>

definition QueryBuilder_format :: "utils \<Rightarrow> jsval \<Rightarrow> jsval \<Rightarrow> error + string" where
  "QueryBuilder_format U tpl values =
     (case tpl of
        JStr t \<Rightarrow>
          (if \<not> (truthy values \<and> (isArray values \<or> typeof values = ''object''))
           then Inl (AssertionError ''second parameter must be an array or object'')
           else if isArray values then Inr (sqlFormat U t values)
           else Inr (sqlFormatObject U t values))
      | _ \<Rightarrow> Inl (AssertionError ''first parameter must be a string''))"

text \<open>\<open>values || []\<close>\<close>

definition or_empty_array :: "jsval \<Rightarrow> jsval" where
  "or_empty_array values = (if truthy values then values else JArr [])"

text \<open>\<open>where(condition, values)\<close>\<close>

definition QueryBuilder_where :: "utils \<Rightarrow> jsval \<Rightarrow> jsval \<Rightarrow> QueryBuilder \<Rightarrow> unit outcome" where
  "QueryBuilder_where U condition values b =
     (if \<not> truthy condition then (Inl (AssertionError ''missing condition''), b)
      else if \<not> (typeof condition = ''string'' \<or> typeof condition = ''object'')
      then (Inl (AssertionError ''condition must be a string or object''), b)
      else if typeof condition = ''string'' then
        (case QueryBuilder_format U condition (or_empty_array values) of
           Inl e \<Rightarrow> (Inl e, b)
         | Inr s \<Rightarrow> (Inr (), b\<lparr>d_conditions := d_conditions b @ [s]\<rparr>))
      else
        (Inr (), b\<lparr>d_conditions := d_conditions b @
           map (\<lambda>name. sqlEscapeId U name @ ''='' @ sqlEscape U (get_prop condition name))
             (own_keys condition)\<rparr>))"

text \<open>The callback of \<open>args.map\<close> in \<open>select\<close>: the first argument that is not a
  non-empty string throws.\<close>

fun select_fields :: "utils \<Rightarrow> jsval list \<Rightarrow> error + string list" where
  "select_fields U [] = Inr []"
| "select_fields U (name # rest) =
     (case name of
        JStr s \<Rightarrow>
          (if s = [] then Inl (AssertionError ''field name must be a string'')
           else case select_fields U rest of
                  Inl e \<Rightarrow> Inl e
                | Inr names \<Rightarrow> Inr (sqlEscapeId U s # names))
      | _ \<Rightarrow> Inl (AssertionError ''field name must be a string''))"

text \<open>\<open>select(...args)\<close>\<close>

definition QueryBuilder_select :: "utils \<Rightarrow> jsval list \<Rightarrow> QueryBuilder \<Rightarrow> unit outcome" where
  "QueryBuilder_select U args b =
     (if d_type b \<noteq> '''' then (Inl (AssertionError (cannot_change (d_type b))), b)
      else case select_fields U args of
             Inl e \<Rightarrow> (Inl e, b\<lparr>d_type := ''SELECT''\<rparr>)
           | Inr names \<Rightarrow>
               (Inr (), b\<lparr>d_type := ''SELECT'', d_fields := join '', '' names\<rparr>))"

text \<open>\<open>update(update, values)\<close>\<close>

definition QueryBuilder_update :: "utils \<Rightarrow> jsval \<Rightarrow> jsval \<Rightarrow> QueryBuilder \<Rightarrow> unit outcome" where
  "QueryBuilder_update U update values b =
     (if d_type b \<noteq> '''' then (Inl (AssertionError (cannot_change (d_type b))), b)
      else if \<not> truthy update
      then (Inl (AssertionError ''missing update data''), b\<lparr>d_type := ''UPDATE''\<rparr>)
      else if \<not> (typeof update = ''string'' \<or> typeof update = ''object'')
      then (Inl (AssertionError ''first parameter must be a string or array''),
            b\<lparr>d_type := ''UPDATE''\<rparr>)
      else if typeof update = ''string'' then
        (case QueryBuilder_format U update (or_empty_array values) of
           Inl e \<Rightarrow> (Inl e, b\<lparr>d_type := ''UPDATE''\<rparr>)
         | Inr s \<Rightarrow> (Inr (), b\<lparr>d_type := ''UPDATE'', d_update := Some s\<rparr>))
      else
        (Inr (), b\<lparr>d_type := ''UPDATE'', d_update := Some (sqlUpdateString U update)\<rparr>))"

text \<open>
  The loops of \<open>insert\<close>.  \<open>for (const field in fields)\<close> runs over the keys of the
  array \<open>fields\<close> (here \<open>field_ids\<close>), that is over its indices \<open>"0"\<close>, \<open>"1"\<close>, ...,
  and it is such an index that is looked up in the item.
\<close>

fun insert_line :: "utils \<Rightarrow> string list \<Rightarrow> jsval \<Rightarrow> error + string list" where
  "insert_line U [] item = Inr []"
| "insert_line U (field # rest) item =
     (if \<not> js_in field item
      then Inl (AssertionError
             (''every item of data array must have field '' @ [CHR 0x22] @ field @ [CHR 0x22]))
      else case insert_line U rest item of
             Inl e \<Rightarrow> Inl e
           | Inr line \<Rightarrow> Inr (sqlEscape U (get_prop item field) # line))"

fun insert_values :: "utils \<Rightarrow> string list \<Rightarrow> jsval list \<Rightarrow> error + string list" where
  "insert_values U field_ids [] = Inr []"
| "insert_values U field_ids (item # items) =
     (if \<not> (truthy item \<and> typeof item = ''object'')
      then Inl (AssertionError ''every item of data array must be an object'')
      else case insert_line U (index_keys (length field_ids)) item of
             Inl e \<Rightarrow> Inl e
           | Inr line \<Rightarrow>
               (case insert_values U field_ids items of
                  Inl e \<Rightarrow> Inl e
                | Inr vals \<Rightarrow> Inr ((''('' @ join '', '' line @ '')'') # vals)))"

text \<open>The statements of \<open>insert\<close> after \<open>data\<close> has become a non-empty array
  \<open>items\<close>, with \<open>first\<close> for \<open>data[0]\<close>.\<close>

definition insert_rows :: "utils \<Rightarrow> jsval \<Rightarrow> jsval list \<Rightarrow> QueryBuilder \<Rightarrow> unit outcome" where
  "insert_rows U first items b =
     (case object_keys first of
        Inl e \<Rightarrow> (Inl e, b)
      | Inr keys \<Rightarrow>
          (let field_ids = map (sqlEscapeId U) keys in
           case insert_values U field_ids items of
             Inl e \<Rightarrow> (Inl e, b)
           | Inr vals \<Rightarrow>
               (Inr (), b\<lparr>d_insert :=
                  Some (''('' @ join '', '' field_ids @ '') VALUES '' @
                        join [CHR '','', CHR 0x0A] vals)\<rparr>)))"

text \<open>\<open>insert(data)\<close>\<close>

definition QueryBuilder_insert :: "utils \<Rightarrow> jsval \<Rightarrow> QueryBuilder \<Rightarrow> unit outcome" where
  "QueryBuilder_insert U data b =
     (if d_type b \<noteq> '''' then (Inl (AssertionError (cannot_change (d_type b))), b)
      else if \<not> truthy data
      then (Inl (AssertionError ''missing data''), b\<lparr>d_type := ''INSERT''\<rparr>)
      else if typeof data \<noteq> ''object''
      then (Inl (AssertionError ''data must be an object or array''), b\<lparr>d_type := ''INSERT''\<rparr>)
      else case data of
             JArr [] \<Rightarrow>
               (Inl (AssertionError ''data array must at least have 1 item''),
                b\<lparr>d_type := ''INSERT''\<rparr>)
           | JArr (first # rest) \<Rightarrow>
               insert_rows U first (first # rest) (b\<lparr>d_type := ''INSERT''\<rparr>)
           | _ \<Rightarrow> insert_rows U data [data] (b\<lparr>d_type := ''INSERT''\<rparr>))"

text \<open>\<open>delete()\<close>\<close>

definition QueryBuilder_delete :: "QueryBuilder \<Rightarrow> unit outcome" where
  "QueryBuilder_delete b =
     (if d_type b \<noteq> '''' then (Inl (AssertionError (cannot_change (d_type b))), b)
      else (Inr (), b\<lparr>d_type := ''DELETE''\<rparr>))"

text \<open>\<open>sql(sql)\<close>, on a string as its documentation says: the template is formatted
  at once, against the object built from the fields as they are at this call.\<close>

definition sql_values :: "QueryBuilder \<Rightarrow> jsval" where
  "sql_values b =
     JObj [(''orderBy'', JStr (d_orderBy b)), (''limit'', JStr (d_limit b)),
           (''fields'', JStr (d_fields b)), (''skipRows'', JNum (d_skipRows b)),
           (''limitRows'', JNum (d_limitRows b))]"

definition QueryBuilder_sql :: "utils \<Rightarrow> string \<Rightarrow> QueryBuilder \<Rightarrow> unit outcome" where
  "QueryBuilder_sql U sql b =
     (if d_type b \<noteq> '''' then (Inl (AssertionError (cannot_change (d_type b))), b)
      else (Inr (), b\<lparr>d_type := ''CUSTOM'',
                       d_sql := Some (sqlFormatObject U sql (sql_values b))\<rparr>))"

text \<open>\<open>order(tpl, values)\<close>, on a string template as its documentation says.\<close>

definition QueryBuilder_order :: "utils \<Rightarrow> string \<Rightarrow> jsval \<Rightarrow> QueryBuilder \<Rightarrow> unit outcome" where
  "QueryBuilder_order U tpl values b =
     (if truthy values then
        (case QueryBuilder_format U (JStr tpl) values of
           Inl e \<Rightarrow> (Inl e, b)
         | Inr s \<Rightarrow> (Inr (), b\<lparr>d_orderFields := s, d_orderBy := ''ORDER BY '' @ s\<rparr>))
      else (Inr (), b\<lparr>d_orderFields := tpl, d_orderBy := ''ORDER BY '' @ tpl\<rparr>))"

text \<open>
  \<open>skip(rows)\<close> and \<open>limit(rows)\<close>, on numbers as their documentation says (\<open>Number(rows)\<close>
  is then \<open>rows\<close>).  Both end
  with \<open>this._data.limit = sqlLimitString(this._data.skip, this._data.limit)\<close>:
  \<open>_data\<close> has no property \<open>skip\<close> (the constructor creates none and nothing assigns
  one), so the first argument is \<open>undefined\<close>; the second is the present text of the
  clause.
\<close>

definition QueryBuilder_skip :: "utils \<Rightarrow> real \<Rightarrow> QueryBuilder \<Rightarrow> unit outcome" where
  "QueryBuilder_skip U rows b =
     (if \<not> rows \<ge> 0 then (Inl (AssertionError ''rows must >= 0''), b)
      else (Inr (), b\<lparr>d_skipRows := rows,
                       d_limit := sqlLimitString U JUndefined (JStr (d_limit b))\<rparr>))"

definition QueryBuilder_limit :: "utils \<Rightarrow> real \<Rightarrow> QueryBuilder \<Rightarrow> unit outcome" where
  "QueryBuilder_limit U rows b =
     (if \<not> rows \<ge> 0 then (Inl (AssertionError ''rows must >= 0''), b)
      else (Inr (), b\<lparr>d_limitRows := rows,
                       d_limit := sqlLimitString U JUndefined (JStr (d_limit b))\<rparr>))"

text \<open>
  \<open>count(alias)\<close>.  The class defines no method of this name (its members are the
  constructor, \<open>format\<close>, \<open>where\<close>, \<open>select\<close>, \<open>update\<close>, \<open>insert\<close>, \<open>delete\<close>, \<open>sql\<close>, \<open>order\<close>,
  \<open>skip\<close>, \<open>limit\<close>, \<open>build\<close> and \<open>exec\<close>), while the tests call \<open>query.count('c')\<close>.  The
  call finds no such property on the builder, so it throws a TypeError before any
  field is read or assigned.
\<close>

definition QueryBuilder_count :: "jsval \<Rightarrow> QueryBuilder \<Rightarrow> unit outcome" where
  "QueryBuilder_count alias b = (Inl (TypeError ''query.count is not a function''), b)"

text \<open>A template literal interpolates \<open>null\<close> as the text \<open>null\<close>.\<close>

definition interpolate :: "string option \<Rightarrow> string" where
  "interpolate v = (case v of None \<Rightarrow> ''null'' | Some s \<Rightarrow> s)"

text \<open>\<open>build()\<close>.  It assigns to no field; the builder is returned as it came.\<close>

definition QueryBuilder_build :: "utils \<Rightarrow> QueryBuilder \<Rightarrow> string outcome" where
  "QueryBuilder_build U b =
     (let t = sqlEscapeId U (tableName b);
          w = join '' AND '' (d_conditions b);
          limit = (if d_limitRows b > 0 then ''LIMIT '' @ numberToString U (d_limitRows b)
                   else '''')
      in if d_type b = ''SELECT'' then
           (Inr (trim (''SELECT '' @ d_fields b @ '' FROM '' @ t @ '' WHERE '' @ w @
                       '' '' @ d_orderBy b @ '' '' @ d_limit b)), b)
         else if d_type b = ''INSERT'' then
           (Inr (trim (''INSERT INTO '' @ t @ '' '' @ interpolate (d_insert b))), b)
         else if d_type b = ''UPDATE'' then
           (Inr (trim (''UPDATE '' @ t @ '' SET '' @ interpolate (d_update b) @
                       '' WHERE '' @ w @ '' '' @ limit)), b)
         else if d_type b = ''DELETE'' then
           (Inr (trim (''DELETE FROM '' @ t @ '' WHERE '' @ w @ '' '' @ limit)), b)
         else if d_type b = ''CUSTOM'' then
           (case d_sql b of
              None \<Rightarrow> (Inl (TypeError ''Cannot read properties of null (reading trim)''), b)
            | Some s \<Rightarrow> (Inr (trim s), b))
         else (Inl (Error (''invalid query type '' @ [CHR 0x22] @ d_type b @ [CHR 0x22])), b))"


section \<open>Calls and fluent chains\<close>

datatype call =
    Select "jsval list"
  | Update jsval jsval
  | Insert jsval
  | Delete
  | Sql string
  | Count jsval
  | Where jsval jsval
  | Order string jsval
  | Skip real
  | Limit real

fun invoke :: "utils \<Rightarrow> call \<Rightarrow> QueryBuilder \<Rightarrow> unit outcome" where
  "invoke U (Select args) b = QueryBuilder_select U args b"
| "invoke U (Update update values) b = QueryBuilder_update U update values b"
| "invoke U (Insert data) b = QueryBuilder_insert U data b"
| "invoke U Delete b = QueryBuilder_delete b"
| "invoke U (Sql sql) b = QueryBuilder_sql U sql b"
| "invoke U (Count alias) b = QueryBuilder_count alias b"
| "invoke U (Where condition values) b = QueryBuilder_where U condition values b"
| "invoke U (Order tpl values) b = QueryBuilder_order U tpl values b"
| "invoke U (Skip rows) b = QueryBuilder_skip U rows b"
| "invoke U (Limit rows) b = QueryBuilder_limit U rows b"

text \<open>The methods that start with the assertion on \<open>this._data.type\<close>, and the type
  each of them assigns; \<open>count\<close>, which the class lacks, is not among them.\<close>

fun establishes :: "call \<Rightarrow> bool" where
  "establishes (Select args) = True"
| "establishes (Update update values) = True"
| "establishes (Insert data) = True"
| "establishes Delete = True"
| "establishes (Sql sql) = True"
| "establishes c = False"

fun kind_of :: "call \<Rightarrow> string" where
  "kind_of (Select args) = ''SELECT''"
| "kind_of (Update update values) = ''UPDATE''"
| "kind_of (Insert data) = ''INSERT''"
| "kind_of Delete = ''DELETE''"
| "kind_of (Sql sql) = ''CUSTOM''"
| "kind_of c = ''''"

text \<open>A chain \<open>query.m1(...).m2(...)\<close>: the first call that throws ends it, and the
  builder stays as that call left it.\<close>

fun chain :: "utils \<Rightarrow> call list \<Rightarrow> QueryBuilder \<Rightarrow> unit outcome" where
  "chain U [] b = (Inr (), b)"
| "chain U (c # cs) b =
     (case invoke U c b of
        (Inl e, b') \<Rightarrow> (Inl e, b')
      | (Inr u, b') \<Rightarrow> chain U cs b')"

text \<open>\<open>query.m1(...). ... .build()\<close>\<close>

definition chain_build :: "utils \<Rightarrow> call list \<Rightarrow> QueryBuilder \<Rightarrow> string outcome" where
  "chain_build U cs b =
     (case chain U cs b of
        (Inl e, b') \<Rightarrow> (Inl e, b')
      | (Inr u, b') \<Rightarrow> QueryBuilder_build U b')"


section \<open>A model of utils.js after the specification\<close>

text \<open>
  Closed examples need the helpers as concrete functions.  utils.js is not among
  the sources, so these follow section 6 of the specification (the escaping and
  templating primitives) and its section 4.3 (the LIMIT clause).
\<close>

text \<open>Modelled from the spec: the text of a row count or a numeric literal, which the
  spec's examples print in plain digits (123, LIMIT 10,20).  The instance prints the
  integer part of a number so; it is exact on the integers of magnitude up to 2^53,
  and the examples below use no other numbers.\<close>

definition number_to_string :: "int \<Rightarrow> string" where
  "number_to_string n =
     (if n < 0 then CHR ''-'' # show_nat (nat (- n)) else show_nat (nat n))"

definition decimal_text :: "real \<Rightarrow> string" where
  "decimal_text r = number_to_string \<lfloor>r\<rfloor>"

text \<open>Modelled from the spec: \<open>sqlEscapeId\<close> of utils.js is missing; the spec's
  \<open>escapeIdentifier(name)\<close> quotes an identifier, a to `a`.\<close>

definition escapeIdentifier :: "string \<Rightarrow> string" where
  "escapeIdentifier name = ''`'' @ name @ ''`''"

text \<open>Modelled from the spec: the "injection-safe quoting" of a string inside
  \<open>escapeLiteral\<close>: single quotes around it, a backslash before each quote and
  backslash.\<close>

fun quote_chars :: "string \<Rightarrow> string" where
  "quote_chars [] = []"
| "quote_chars (c # cs) =
     (if c = CHR 0x27 \<or> c = CHR 0x5C then CHR 0x5C # c # quote_chars cs
      else c # quote_chars cs)"

text \<open>Modelled from the spec: \<open>sqlEscape\<close> of utils.js is missing; the spec's
  \<open>escapeLiteral(value)\<close> handles numbers, strings, null and undefined, booleans and
  arrays (comma-joined literals).  The spec names no rendering of a mapping; the
  model gives \<open>NULL\<close> for it, and nothing below depends on that.\<close>

fun escapeLiteral :: "jsval \<Rightarrow> string" where
  "escapeLiteral JUndefined = ''NULL''"
| "escapeLiteral JNull = ''NULL''"
| "escapeLiteral (JBool b) = (if b then ''true'' else ''false'')"
| "escapeLiteral (JNum n) = decimal_text n"
| "escapeLiteral (JStr s) = [CHR 0x27] @ quote_chars s @ [CHR 0x27]"
| "escapeLiteral (JArr xs) = join '', '' (map escapeLiteral xs)"
| "escapeLiteral (JObj kvs) = ''NULL''"

text \<open>Modelled from the spec: \<open>sqlFormat\<close> of utils.js is missing; the spec's
  \<open>renderTemplate(template, positionalValues)\<close> substitutes each \<open>?\<close> left to right; a
  \<open>?\<close> beyond the last value stays.\<close>

fun renderTemplate :: "string \<Rightarrow> jsval list \<Rightarrow> string" where
  "renderTemplate [] vs = []"
| "renderTemplate (c # cs) vs =
     (if c = CHR ''?'' then
        (case vs of
           [] \<Rightarrow> c # renderTemplate cs []
         | v # rest \<Rightarrow> escapeLiteral v @ renderTemplate cs rest)
      else c # renderTemplate cs vs)"

text \<open>Modelled from the spec: \<open>sqlFormatObject\<close> of utils.js is missing; the spec's
  \<open>renderTemplateNamed(template, mapping)\<close> substitutes \<open>:name\<close> tokens, a name being a
  run of letters, digits, \<open>_\<close> and \<open>$\<close>; a token whose name the mapping does not hold
  stays as literal text.\<close>

definition is_name_char :: "char \<Rightarrow> bool" where
  "is_name_char c =
     (let n = of_char c :: nat in
      (48 \<le> n \<and> n \<le> 57) \<or> (65 \<le> n \<and> n \<le> 90) \<or> (97 \<le> n \<and> n \<le> 122) \<or>
      c = CHR ''_'' \<or> c = CHR ''$'')"

definition render_token :: "(string \<times> jsval) list \<Rightarrow> string \<Rightarrow> string" where
  "render_token m name =
     (case map_of m name of
        None \<Rightarrow> CHR '':'' # name
      | Some v \<Rightarrow> if name = [] then CHR '':'' # name else escapeLiteral v)"

fun named_scan :: "(string \<times> jsval) list \<Rightarrow> string option \<Rightarrow> string \<Rightarrow> string" where
  "named_scan m None [] = []"
| "named_scan m (Some name) [] = render_token m name"
| "named_scan m None (c # cs) =
     (if c = CHR '':'' then named_scan m (Some []) cs else c # named_scan m None cs)"
| "named_scan m (Some name) (c # cs) =
     (if is_name_char c then named_scan m (Some (name @ [c])) cs
      else if c = CHR '':'' then render_token m name @ named_scan m (Some []) cs
      else render_token m name @ c # named_scan m None cs)"

definition renderTemplateNamed :: "string \<Rightarrow> jsval \<Rightarrow> string" where
  "renderTemplateNamed template mapping = named_scan (entries mapping) None template"

text \<open>Modelled from the spec: \<open>sqlUpdateString\<close> of utils.js is missing; the spec's
  \<open>renderUpdateAssignments(mapping)\<close> turns {a:1,b:2} into `a`=1, `b`=2.\<close>

definition renderUpdateAssignments :: "jsval \<Rightarrow> string" where
  "renderUpdateAssignments mapping =
     join '', '' (map (\<lambda>kv. escapeIdentifier (fst kv) @ ''='' @ escapeLiteral (snd kv))
                     (entries mapping))"

text \<open>Modelled from the spec: \<open>sqlLimitString\<close> of utils.js is missing; the spec's
  \<open>renderLimitClause(skip, limit)\<close> implements its section 4.3 on two row counts.\<close>

definition renderLimitClause :: "real \<Rightarrow> real \<Rightarrow> string" where
  "renderLimitClause skip limit =
     (if limit > 0 then
        (if skip > 0 then ''LIMIT '' @ decimal_text skip @ '','' @ decimal_text limit
         else ''LIMIT '' @ decimal_text limit)
      else if skip > 0 then ''LIMIT '' @ decimal_text skip @ '',18446744073709551615''
      else '''')"

text \<open>Modelled from the spec: section 4.3 speaks of row counts only.  An argument
  that is not a number counts as 0 here; the theorems about the builder's own calls
  of \<open>sqlLimitString\<close> hold for every function in its place.\<close>

definition row_count :: "jsval \<Rightarrow> real" where
  "row_count v = (case v of JNum n \<Rightarrow> n | _ \<Rightarrow> 0)"

definition spec_utils :: utils where
  "spec_utils =
     \<lparr> sqlEscape = escapeLiteral,
       sqlEscapeId = escapeIdentifier,
       sqlFormat = (\<lambda>tpl values. renderTemplate tpl (map snd (entries values))),
       sqlFormatObject = renderTemplateNamed,
       sqlUpdateString = renderUpdateAssignments,
       sqlLimitString = (\<lambda>skip limit. renderLimitClause (row_count skip) (row_count limit)),
       numberToString = decimal_text \<rparr>"


section \<open>What the calls keep\<close>

lemmas method_defs =
  QueryBuilder_select_def QueryBuilder_update_def QueryBuilder_insert_def
  QueryBuilder_delete_def QueryBuilder_sql_def QueryBuilder_where_def
  QueryBuilder_order_def QueryBuilder_skip_def QueryBuilder_limit_def
  QueryBuilder_count_def

lemma insert_rows_keeps_type: "d_type (snd (insert_rows U first items b)) = d_type b"
  by (simp add: insert_rows_def Let_def split: sum.splits)

lemma invoke_keeps_type:
  "d_type b \<noteq> '''' \<Longrightarrow> d_type (snd (invoke U c b)) = d_type b"
  by (cases c) (simp_all add: method_defs split: sum.splits)

lemma invoke_keeps_sql:
  "d_type b \<noteq> '''' \<Longrightarrow> d_sql (snd (invoke U c b)) = d_sql b"
  by (cases c) (simp_all add: method_defs split: sum.splits)

lemma modifier_keeps_type:
  "\<not> establishes c \<Longrightarrow> d_type (snd (invoke U c b)) = d_type b"
  by (cases c) (simp_all add: method_defs split: sum.splits)

lemma chain_keeps_type:
  "d_type b \<noteq> '''' \<Longrightarrow> d_type (snd (chain U cs b)) = d_type b"
proof (induction cs arbitrary: b)
  case Nil
  then show ?case by simp
next
  case (Cons c cs)
  obtain r b' where inv: "invoke U c b = (r, b')" by (cases "invoke U c b")
  with Cons.prems have ty: "d_type b' = d_type b"
    using invoke_keeps_type [of b U c] by simp
  show ?case
  proof (cases r)
    case (Inl e)
    with inv ty show ?thesis by simp
  next
    case (Inr u)
    with inv ty Cons.prems Cons.IH [of b'] show ?thesis by simp
  qed
qed

lemma chain_keeps_sql:
  "d_type b \<noteq> '''' \<Longrightarrow> d_sql (snd (chain U cs b)) = d_sql b"
proof (induction cs arbitrary: b)
  case Nil
  then show ?case by simp
next
  case (Cons c cs)
  obtain r b' where inv: "invoke U c b = (r, b')" by (cases "invoke U c b")
  with Cons.prems have ty: "d_type b' = d_type b" and sq: "d_sql b' = d_sql b"
    using invoke_keeps_type [of b U c] invoke_keeps_sql [of b U c] by simp_all
  show ?case
  proof (cases r)
    case (Inl e)
    with inv sq show ?thesis by simp
  next
    case (Inr u)
    with inv ty sq Cons.prems Cons.IH [of b'] show ?thesis by simp
  qed
qed

lemma establishing_sets_type:
  "d_type b = '''' \<Longrightarrow> establishes c \<Longrightarrow> d_type (snd (invoke U c b)) = kind_of c"
  by (cases c)
    (simp_all add: method_defs insert_rows_keeps_type
       split: sum.splits jsval.splits list.splits)

lemma establishing_rejected:
  "d_type b \<noteq> '''' \<Longrightarrow> establishes c \<Longrightarrow>
     invoke U c b = (Inl (AssertionError (cannot_change (d_type b))), b)"
  by (cases c) (simp_all add: method_defs)

lemma kind_of_nonempty: "establishes c \<Longrightarrow> kind_of c \<noteq> ''''"
  by (cases c) simp_all


section \<open>Trimming a rendered statement\<close>

lemma not_space_letters [simp]:
  "\<not> is_space CHR ''S''" "\<not> is_space CHR ''U''" "\<not> is_space CHR ''D''"
  "\<not> is_space CHR ''I''" "\<not> is_space CHR ''E''" "is_space CHR '' ''"
  by (simp_all add: is_space_def)

lemma trim_between:
  assumes "\<not> is_space a" and "\<not> is_space z"
  shows "trim (a # xs @ z # ys) = a # xs @ z # rev (dropWhile is_space (rev ys))"
proof -
  have "dropWhile is_space (rev ys @ z # rev xs @ [a]) =
        dropWhile is_space (rev ys) @ z # rev xs @ [a]"
    using assms(2) by (simp add: dropWhile_append)
  then show ?thesis
    using assms(1) by (simp add: trim_def)
qed


section \<open>C1: the WHERE keyword with no conditions\<close>

lemma build_select_no_conditions:
  assumes "d_type b = ''SELECT''" and "d_conditions b = []"
  shows "\<exists>rest. fst (QueryBuilder_build U b) =
           Inr (''SELECT '' @ d_fields b @ '' FROM '' @ sqlEscapeId U (tableName b) @
                '' WHERE'' @ rest)"
proof -
  let ?t = "sqlEscapeId U (tableName b)"
  let ?tail = "''  '' @ d_orderBy b @ '' '' @ d_limit b"
  have "fst (QueryBuilder_build U b) =
        Inr (trim (''SELECT '' @ d_fields b @ '' FROM '' @ ?t @ '' WHERE '' @ '' '' @
                   d_orderBy b @ '' '' @ d_limit b))"
    using assms by (simp add: QueryBuilder_build_def Let_def)
  also have "''SELECT '' @ d_fields b @ '' FROM '' @ ?t @ '' WHERE '' @ '' '' @
               d_orderBy b @ '' '' @ d_limit b =
             CHR ''S'' # (''ELECT '' @ d_fields b @ '' FROM '' @ ?t @ '' WHER'') @
               CHR ''E'' # ?tail"
    by simp
  also have "trim \<dots> =
             CHR ''S'' # (''ELECT '' @ d_fields b @ '' FROM '' @ ?t @ '' WHER'') @
               CHR ''E'' # rev (dropWhile is_space (rev ?tail))"
    by (rule trim_between) simp_all
  finally show ?thesis by simp
qed

lemma build_update_no_conditions:
  assumes "d_type b = ''UPDATE''" and "d_conditions b = []"
  shows "\<exists>rest. fst (QueryBuilder_build U b) =
           Inr (''UPDATE '' @ sqlEscapeId U (tableName b) @ '' SET '' @
                interpolate (d_update b) @ '' WHERE'' @ rest)"
proof -
  let ?t = "sqlEscapeId U (tableName b)"
  let ?u = "interpolate (d_update b)"
  let ?lim = "if 0 < d_limitRows b then ''LIMIT '' @ numberToString U (d_limitRows b) else []"
  have "fst (QueryBuilder_build U b) =
        Inr (trim (''UPDATE '' @ ?t @ '' SET '' @ ?u @ '' WHERE '' @ '' '' @ ?lim))"
    using assms by (simp add: QueryBuilder_build_def Let_def)
  also have "''UPDATE '' @ ?t @ '' SET '' @ ?u @ '' WHERE '' @ '' '' @ ?lim =
             CHR ''U'' # (''PDATE '' @ ?t @ '' SET '' @ ?u @ '' WHER'') @
               CHR ''E'' # (''  '' @ ?lim)"
    by simp
  also have "trim \<dots> =
             CHR ''U'' # (''PDATE '' @ ?t @ '' SET '' @ ?u @ '' WHER'') @
               CHR ''E'' # rev (dropWhile is_space (rev (''  '' @ ?lim)))"
    by (rule trim_between) simp_all
  finally show ?thesis by simp
qed

lemma build_delete_no_conditions:
  assumes "d_type b = ''DELETE''" and "d_conditions b = []"
  shows "\<exists>rest. fst (QueryBuilder_build U b) =
           Inr (''DELETE FROM '' @ sqlEscapeId U (tableName b) @ '' WHERE'' @ rest)"
proof -
  let ?t = "sqlEscapeId U (tableName b)"
  let ?lim = "if 0 < d_limitRows b then ''LIMIT '' @ numberToString U (d_limitRows b) else []"
  have "fst (QueryBuilder_build U b) =
        Inr (trim (''DELETE FROM '' @ ?t @ '' WHERE '' @ '' '' @ ?lim))"
    using assms by (simp add: QueryBuilder_build_def Let_def)
  also have "''DELETE FROM '' @ ?t @ '' WHERE '' @ '' '' @ ?lim =
             CHR ''D'' # (''ELETE FROM '' @ ?t @ '' WHER'') @ CHR ''E'' # (''  '' @ ?lim)"
    by simp
  also have "trim \<dots> =
             CHR ''D'' # (''ELETE FROM '' @ ?t @ '' WHER'') @
               CHR ''E'' # rev (dropWhile is_space (rev (''  '' @ ?lim)))"
    by (rule trim_between) simp_all
  finally show ?thesis by simp
qed

text \<open>
  C1 (what the code does instead).  The claim has the WHERE segment, keyword included,
  render as the empty string when there are no conditions.  \<open>build\<close> writes the
  keyword into the SELECT, UPDATE and DELETE templates unconditionally: for every
  builder with no conditions, and whatever the helpers are, the rendered statement
  goes on with \<open>WHERE\<close> right after the table (or the assignments).
\<close>

theorem C1_where_keyword_always_rendered:
  assumes "d_conditions b = []"
  shows "(d_type b = ''SELECT'' \<longrightarrow>
            (\<exists>rest. fst (QueryBuilder_build U b) =
               Inr (''SELECT '' @ d_fields b @ '' FROM '' @ sqlEscapeId U (tableName b) @
                    '' WHERE'' @ rest))) \<and>
         (d_type b = ''UPDATE'' \<longrightarrow>
            (\<exists>rest. fst (QueryBuilder_build U b) =
               Inr (''UPDATE '' @ sqlEscapeId U (tableName b) @ '' SET '' @
                    interpolate (d_update b) @ '' WHERE'' @ rest))) \<and>
         (d_type b = ''DELETE'' \<longrightarrow>
            (\<exists>rest. fst (QueryBuilder_build U b) =
               Inr (''DELETE FROM '' @ sqlEscapeId U (tableName b) @ '' WHERE'' @ rest)))"
  using assms build_select_no_conditions [of b U] build_update_no_conditions [of b U]
    build_delete_no_conditions [of b U]
  by blast

text \<open>At \<open>delete().build()\<close> on table test1, where the test suite and the claim expect
  DELETE FROM `test1`.\<close>

theorem C1_where_keyword_always_rendered_witness:
  "d_conditions (snd (QueryBuilder_delete (initial ''test1''))) = [] \<and>
   d_type (snd (QueryBuilder_delete (initial ''test1''))) = ''DELETE'' \<and>
   (\<exists>rest. fst (QueryBuilder_build spec_utils (snd (QueryBuilder_delete (initial ''test1'')))) =
      Inr (''DELETE FROM `test1` WHERE'' @ rest)) \<and>
   fst (QueryBuilder_build spec_utils (snd (QueryBuilder_delete (initial ''test1'')))) =
      Inr ''DELETE FROM `test1` WHERE''"
proof -
  let ?b = "snd (QueryBuilder_delete (initial ''test1''))"
  have c: "d_conditions ?b = []"
    by (simp add: QueryBuilder_delete_def initial_def)
  have t: "d_type ?b = ''DELETE''"
    by (simp add: QueryBuilder_delete_def initial_def)
  have e: "sqlEscapeId spec_utils (tableName ?b) = ''`test1`''"
    by (simp add: QueryBuilder_delete_def initial_def spec_utils_def escapeIdentifier_def)
  have v: "fst (QueryBuilder_build spec_utils ?b) = Inr ''DELETE FROM `test1` WHERE''"
    by code_simp
  from C1_where_keyword_always_rendered [OF c, of spec_utils] t e
  have "\<exists>rest. fst (QueryBuilder_build spec_utils ?b) =
          Inr (''DELETE FROM `test1` WHERE'' @ rest)"
    by simp
  with c t v show ?thesis by simp
qed


section \<open>C2: when \<open>sql\<close> formats its template\<close>

text \<open>
  C2 (what the code does instead).  The claim has the placeholders of a template
  resolved at \<open>build()\<close>, against the state at that moment.  \<open>sql(template)\<close> calls
  \<open>sqlFormatObject\<close> at once, on the five fields as they are when \<open>sql\<close> is called, and
  stores the result; \<open>build\<close> returns that stored text trimmed.  So on a builder
  with no statement kind yet, whatever calls follow \<open>sql(tpl)\<close> in the chain and
  whatever the helpers are, \<open>build\<close> renders the text formatted from the state
  before \<open>sql\<close>.
\<close>

theorem C2_sql_formats_at_call:
  assumes "d_type b = ''''"
  shows "fst (QueryBuilder_build U (snd (chain U (Sql tpl # cs) b))) =
           Inr (trim (sqlFormatObject U tpl (sql_values b)))"
proof -
  let ?b1 = "b\<lparr>d_type := ''CUSTOM'', d_sql := Some (sqlFormatObject U tpl (sql_values b))\<rparr>"
  have step: "chain U (Sql tpl # cs) b = chain U cs ?b1"
    using assms by (simp add: QueryBuilder_sql_def)
  have ty: "d_type ?b1 \<noteq> ''''" by simp
  have "d_type (snd (chain U cs ?b1)) = ''CUSTOM''"
    using chain_keeps_type [OF ty, of U cs] by simp
  moreover have "d_sql (snd (chain U cs ?b1)) = Some (sqlFormatObject U tpl (sql_values b))"
    using chain_keeps_sql [OF ty, of U cs] by simp
  ultimately show ?thesis
    unfolding step by (simp add: QueryBuilder_build_def Let_def)
qed

text \<open>At \<open>sql('SELECT :$fields FROM `test1` :$limit').limit(10).skip(5)\<close>: the row limit
  is 10 when \<open>build\<close> runs, and the text is the one formatted from the initial fields.\<close>

theorem C2_sql_formats_at_call_witness:
  "d_type (initial ''test1'') = '''' \<and>
   fst (QueryBuilder_build spec_utils
          (snd (chain spec_utils
                  [Sql ''SELECT :$fields FROM `test1` :$limit'', Limit 10, Skip 5]
                  (initial ''test1'')))) =
     Inr (trim (sqlFormatObject spec_utils ''SELECT :$fields FROM `test1` :$limit''
                  (sql_values (initial ''test1'')))) \<and>
   sql_values (initial ''test1'') =
     JObj [(''orderBy'', JStr ''''), (''limit'', JStr ''''), (''fields'', JStr ''*''),
           (''skipRows'', JNum 0), (''limitRows'', JNum 0)] \<and>
   d_limitRows (snd (chain spec_utils
                  [Sql ''SELECT :$fields FROM `test1` :$limit'', Limit 10, Skip 5]
                  (initial ''test1''))) = 10"
proof -
  have t: "d_type (initial ''test1'') = ''''"
    by (simp add: initial_def)
  have v: "sql_values (initial ''test1'') =
     JObj [(''orderBy'', JStr ''''), (''limit'', JStr ''''), (''fields'', JStr ''*''),
           (''skipRows'', JNum 0), (''limitRows'', JNum 0)]"
    by (simp add: sql_values_def initial_def)
  have l: "d_limitRows (snd (chain spec_utils
                  [Sql ''SELECT :$fields FROM `test1` :$limit'', Limit 10, Skip 5]
                  (initial ''test1''))) = 10"
    by (simp add: method_defs initial_def)
  from C2_sql_formats_at_call
         [OF t, of spec_utils "''SELECT :$fields FROM `test1` :$limit''" "[Limit 10, Skip 5]"]
    t v l
  show ?thesis by simp
qed


section \<open>C3: \<open>insert\<close> of one mapping\<close>

lemma show_nat_0: "show_nat 0 = ''0''"
  by code_simp

lemma index_keys_Suc: "index_keys (Suc n) = ''0'' # map show_nat [1..<Suc n]"
  by (simp add: index_keys_def upt_conv_Cons show_nat_0 del: upt_Suc)

text \<open>
  C3 (what the code does instead).  The claim has \<open>insert({a:123,b:456})\<close> succeed.
  The inner loop of \<open>insert\<close> is \<open>for (const field in fields)\<close>, which runs over the
  indices of the array of escaped column names, and asserts \<open>field in item\<close> for
  such an index.  So on a builder with no statement kind yet, \<open>insert\<close> of any
  non-empty mapping that has no key \<open>"0"\<close> throws at the first column, with the kind
  already set to INSERT, whatever the helpers are.
\<close>

theorem C3_insert_rejects_mapping:
  assumes "d_type b = ''''" and "kvs \<noteq> []" and "''0'' \<notin> fst ` set kvs"
  shows "QueryBuilder_insert U (JObj kvs) b =
           (Inl (AssertionError
              (''every item of data array must have field '' @ [CHR 0x22] @ ''0'' @ [CHR 0x22])),
            b\<lparr>d_type := ''INSERT''\<rparr>)"
proof -
  obtain n where n: "length kvs = Suc n"
    using assms(2) by (cases kvs) simp_all
  have "\<not> js_in ''0'' (JObj kvs)"
    using assms(3) by (simp add: js_in_def own_keys_def)
  then show ?thesis
    using assms(1) n
    by (simp add: QueryBuilder_insert_def insert_rows_def own_keys_def index_keys_Suc
          del: upt_Suc)
qed

text \<open>At \<open>insert({a:123,b:456}).build()\<close> on table test1: the chain ends in the
  assertion error and never reaches \<open>build\<close>.\<close>

theorem C3_insert_rejects_mapping_witness:
  "d_type (initial ''test1'') = '''' \<and>
   [(''a'', JNum 123), (''b'', JNum 456)] \<noteq> [] \<and>
   ''0'' \<notin> fst ` set [(''a'', JNum 123), (''b'', JNum 456)] \<and>
   chain_build spec_utils [Insert (JObj [(''a'', JNum 123), (''b'', JNum 456)])]
       (initial ''test1'') =
     (Inl (AssertionError
        (''every item of data array must have field '' @ [CHR 0x22] @ ''0'' @ [CHR 0x22])),
      (initial ''test1'')\<lparr>d_type := ''INSERT''\<rparr>)"
proof -
  have t: "d_type (initial ''test1'') = ''''"
    by (simp add: initial_def)
  have k: "''0'' \<notin> fst ` set [(''a'', JNum 123), (''b'', JNum 456)]"
    by simp
  from C3_insert_rejects_mapping [OF t _ k, of spec_utils] t k
  show ?thesis by (simp add: chain_build_def)
qed


section \<open>C4: the LIMIT clause after \<open>skip\<close>\<close>

text \<open>
  C4 (what the code does instead).  The claim has a SELECT with \<open>skipRows > 0\<close> and
  \<open>limitRows = 0\<close> end in LIMIT skipRows,18446744073709551615.  \<open>skip(rows)\<close> stores
  \<open>rows\<close> in \<open>skipRows\<close> and then computes the clause from \<open>this._data.skip\<close>, which is
  \<open>undefined\<close>, and the old clause text; \<open>build\<close> reads the clause and never
  \<open>skipRows\<close>.  So for every builder and whatever \<open>sqlLimitString\<close> is, the clause
  after \<open>skip(n)\<close> does not depend on \<open>n\<close>, and \<open>skip(n)\<close> and \<open>skip(m)\<close> render the same
  statement.
\<close>

theorem C4_skip_amount_never_rendered:
  assumes "0 \<le> n" and "0 \<le> m"
  shows "d_limit (snd (QueryBuilder_skip U n b)) =
           sqlLimitString U JUndefined (JStr (d_limit b)) \<and>
         fst (QueryBuilder_build U (snd (QueryBuilder_skip U n b))) =
         fst (QueryBuilder_build U (snd (QueryBuilder_skip U m b)))"
  using assms
  by (simp add: QueryBuilder_skip_def QueryBuilder_build_def Let_def split: option.splits)

text \<open>At \<open>select('name','age').where({a:123,b:456}).skip(10)\<close>, a SELECT with
  \<open>skipRows = 10\<close> and \<open>limitRows = 0\<close>: it renders as the same chain with \<open>skip(20)\<close> does.\<close>

theorem C4_skip_amount_never_rendered_witness:
  "(0::real) \<le> 10 \<and> (0::real) \<le> 20 \<and>
   d_type (snd (QueryBuilder_skip spec_utils 10 (snd (chain spec_utils
      [Select [JStr ''name'', JStr ''age''],
       Where (JObj [(''a'', JNum 123), (''b'', JNum 456)]) JUndefined]
      (initial ''test1''))))) = ''SELECT'' \<and>
   d_skipRows (snd (QueryBuilder_skip spec_utils 10 (snd (chain spec_utils
      [Select [JStr ''name'', JStr ''age''],
       Where (JObj [(''a'', JNum 123), (''b'', JNum 456)]) JUndefined]
      (initial ''test1''))))) = 10 \<and>
   d_limitRows (snd (QueryBuilder_skip spec_utils 10 (snd (chain spec_utils
      [Select [JStr ''name'', JStr ''age''],
       Where (JObj [(''a'', JNum 123), (''b'', JNum 456)]) JUndefined]
      (initial ''test1''))))) = 0 \<and>
   fst (QueryBuilder_build spec_utils (snd (QueryBuilder_skip spec_utils 10 (snd (chain spec_utils
      [Select [JStr ''name'', JStr ''age''],
       Where (JObj [(''a'', JNum 123), (''b'', JNum 456)]) JUndefined]
      (initial ''test1'')))))) =
   fst (QueryBuilder_build spec_utils (snd (QueryBuilder_skip spec_utils 20 (snd (chain spec_utils
      [Select [JStr ''name'', JStr ''age''],
       Where (JObj [(''a'', JNum 123), (''b'', JNum 456)]) JUndefined]
      (initial ''test1''))))))"
proof -
  let ?b = "snd (chain spec_utils
      [Select [JStr ''name'', JStr ''age''],
       Where (JObj [(''a'', JNum 123), (''b'', JNum 456)]) JUndefined]
      (initial ''test1''))"
  have h: "(0::real) \<le> 10" "(0::real) \<le> 20"
    by simp_all
  have s: "d_type (snd (QueryBuilder_skip spec_utils 10 ?b)) = ''SELECT''"
          "d_skipRows (snd (QueryBuilder_skip spec_utils 10 ?b)) = 10"
          "d_limitRows (snd (QueryBuilder_skip spec_utils 10 ?b)) = 0"
    by (simp_all add: method_defs initial_def)
  from C4_skip_amount_never_rendered [OF h, of spec_utils ?b] s
  show ?thesis by simp
qed


section \<open>C5: \<open>skip\<close> and \<open>limit\<close> in either order\<close>

lemma chain_append:
  "chain U (xs @ ys) b =
     (case chain U xs b of (Inl e, b') \<Rightarrow> (Inl e, b') | (Inr u, b') \<Rightarrow> chain U ys b')"
proof (induction xs arbitrary: b)
  case Nil
  show ?case by simp
next
  case (Cons c xs)
  obtain r b' where inv: "invoke U c b = (r, b')" by (cases "invoke U c b")
  show ?case
  proof (cases r)
    case (Inl e)
    with inv show ?thesis by simp
  next
    case (Inr u)
    with inv Cons.IH [of b'] show ?thesis by simp
  qed
qed

lemma skip_then_limit:
  assumes "0 \<le> n" and "0 \<le> m"
  shows "chain U [Skip n, Limit m] b =
           (Inr (), b\<lparr>d_skipRows := n, d_limitRows := m,
                      d_limit := sqlLimitString U JUndefined
                        (JStr (sqlLimitString U JUndefined (JStr (d_limit b))))\<rparr>)"
  using assms by (simp add: QueryBuilder_skip_def QueryBuilder_limit_def)

lemma skip_limit_swap:
  assumes "0 \<le> n" and "0 \<le> m"
  shows "chain U [Skip n, Limit m] b = chain U [Limit m, Skip n] b"
  using assms by (simp add: QueryBuilder_skip_def QueryBuilder_limit_def)

lemma select_build_ignores_rows:
  assumes "d_type b = ''SELECT''"
  shows "fst (QueryBuilder_build U (b\<lparr>d_skipRows := n, d_limitRows := m, d_limit := l\<rparr>)) =
         fst (QueryBuilder_build U (b\<lparr>d_skipRows := n', d_limitRows := m', d_limit := l\<rparr>))"
  using assms by (simp add: QueryBuilder_build_def Let_def)

text \<open>
  C5 (what the code does instead).  The claim has \<open>skip(n)\<close> then \<open>limit(m)\<close> render as
  \<open>limit(m)\<close> then \<open>skip(n)\<close> because the LIMIT clause is recomputed from \<open>skipRows\<close> and
  \<open>limitRows\<close> on each of the two calls.  Each call does store its counter, but it
  recomputes the clause as \<open>sqlLimitString(this._data.skip, this._data.limit)\<close>, from
  \<open>undefined\<close> and the old clause text.  So for every builder, all non-negative \<open>n\<close>
  and \<open>m\<close> and whatever the helpers are: after \<open>skip(n).limit(m)\<close> the clause is
  \<open>sqlLimitString\<close> applied twice to \<open>undefined\<close> and the clause text before, in which
  neither \<open>n\<close> nor \<open>m\<close> occurs; the two orders do end in the same outcome, builder and
  built statement, with any calls \<open>before\<close> and \<open>after\<close> the pair; and a SELECT renders
  the same statement for any other non-negative \<open>n'\<close> and \<open>m'\<close>.
\<close>

theorem C5_clause_not_from_row_counts:
  assumes "0 \<le> n" and "0 \<le> m"
  shows "chain U [Skip n, Limit m] b =
           (Inr (), b\<lparr>d_skipRows := n, d_limitRows := m,
                      d_limit := sqlLimitString U JUndefined
                        (JStr (sqlLimitString U JUndefined (JStr (d_limit b))))\<rparr>) \<and>
         chain U (before @ [Skip n, Limit m] @ after) b =
         chain U (before @ [Limit m, Skip n] @ after) b \<and>
         chain_build U (before @ [Skip n, Limit m] @ after) b =
         chain_build U (before @ [Limit m, Skip n] @ after) b \<and>
         (d_type b = ''SELECT'' \<and> 0 \<le> n' \<and> 0 \<le> m' \<longrightarrow>
            fst (chain_build U [Skip n, Limit m] b) =
            fst (chain_build U [Skip n', Limit m'] b))"
proof -
  have mid: "chain U ([Skip n, Limit m] @ rest) b' = chain U ([Limit m, Skip n] @ rest) b'"
    for b' rest
    by (simp only: chain_append [of U _ rest] skip_limit_swap [OF assms])
  have all: "chain U (before @ [Skip n, Limit m] @ rest) b =
             chain U (before @ [Limit m, Skip n] @ rest) b" for rest
    by (simp only: chain_append [of U before] mid)
  have same: "fst (chain_build U [Skip n, Limit m] b) =
              fst (chain_build U [Skip n', Limit m'] b)"
    if "d_type b = ''SELECT''" and "0 \<le> n'" and "0 \<le> m'"
    unfolding chain_build_def skip_then_limit [OF assms] skip_then_limit [OF that(2,3)]
    using select_build_ignores_rows [OF that(1)] by simp
  from skip_then_limit [OF assms, of U b] all [of after] same show ?thesis
    by (simp add: chain_build_def)
qed

text \<open>At \<open>select('name','age').where({a:123,b:456})\<close> followed by \<open>skip(10).limit(20)\<close>, where
  the tests expect LIMIT 10,20: the counters are 10 and 20, and the statement is the
  one that \<open>skip(5).limit(7)\<close> renders.\<close>

theorem C5_clause_not_from_row_counts_witness:
  "(0::real) \<le> 10 \<and> (0::real) \<le> 20 \<and> (0::real) \<le> 5 \<and> (0::real) \<le> 7 \<and>
   d_type (snd (chain spec_utils
      [Select [JStr ''name'', JStr ''age''],
       Where (JObj [(''a'', JNum 123), (''b'', JNum 456)]) JUndefined]
      (initial ''test1''))) = ''SELECT'' \<and>
   d_skipRows (snd (chain spec_utils [Skip 10, Limit 20] (snd (chain spec_utils
      [Select [JStr ''name'', JStr ''age''],
       Where (JObj [(''a'', JNum 123), (''b'', JNum 456)]) JUndefined]
      (initial ''test1''))))) = 10 \<and>
   d_limitRows (snd (chain spec_utils [Skip 10, Limit 20] (snd (chain spec_utils
      [Select [JStr ''name'', JStr ''age''],
       Where (JObj [(''a'', JNum 123), (''b'', JNum 456)]) JUndefined]
      (initial ''test1''))))) = 20 \<and>
   fst (chain_build spec_utils [Skip 10, Limit 20] (snd (chain spec_utils
      [Select [JStr ''name'', JStr ''age''],
       Where (JObj [(''a'', JNum 123), (''b'', JNum 456)]) JUndefined]
      (initial ''test1'')))) =
   fst (chain_build spec_utils [Skip 5, Limit 7] (snd (chain spec_utils
      [Select [JStr ''name'', JStr ''age''],
       Where (JObj [(''a'', JNum 123), (''b'', JNum 456)]) JUndefined]
      (initial ''test1''))))"
proof -
  let ?b = "snd (chain spec_utils
      [Select [JStr ''name'', JStr ''age''],
       Where (JObj [(''a'', JNum 123), (''b'', JNum 456)]) JUndefined]
      (initial ''test1''))"
  have h: "(0::real) \<le> 10" "(0::real) \<le> 20"
    by simp_all
  have h': "(0::real) \<le> 5" "(0::real) \<le> 7"
    by simp_all
  have t: "d_type ?b = ''SELECT''"
    by (simp add: method_defs initial_def)
  note th = C5_clause_not_from_row_counts [OF h, of spec_utils ?b "[]" "[]" 5 7]
  have r: "d_skipRows (snd (chain spec_utils [Skip 10, Limit 20] ?b)) = 10"
          "d_limitRows (snd (chain spec_utils [Skip 10, Limit 20] ?b)) = 20"
    unfolding th [THEN conjunct1] by simp_all
  have e: "fst (chain_build spec_utils [Skip 10, Limit 20] ?b) =
           fst (chain_build spec_utils [Skip 5, Limit 7] ?b)"
    using th [THEN conjunct2, THEN conjunct2, THEN conjunct2] t h' by blast
  from h h' t r e show ?thesis by blast
qed


section \<open>C6: the statement kind is set once\<close>

text \<open>
  C6 (what the code does instead).  The claim counts \<open>count\<close> among the
  statement-establishing calls: the first such call sets the kind and any second one
  fails.  The class defines no \<open>count\<close>: on every builder \<open>count(alias)\<close> throws a
  TypeError and changes nothing, so on a fresh builder the kind stays unset and a
  following \<open>delete()\<close> succeeds.  For the five methods the class does define
  (\<open>select\<close>, \<open>update\<close>, \<open>insert\<close>, \<open>delete\<close>, \<open>sql\<close>) the code does what the claim says: on
  a builder whose kind is unset, such a call sets the kind to its own (non-empty)
  value, and a call of any other method leaves the kind as it is; on a builder
  whose kind is set, such a call fails with the assertion error "cannot change query
  type after it was set to ..." and leaves the whole builder as it was, whichever two
  kinds are combined; and once the kind is set, no chain of calls changes it.
\<close>

theorem C6_count_undefined_kind_set_once:
  "invoke U (Count alias) b = (Inl (TypeError ''query.count is not a function''), b) \<and>
   (d_type b = '''' \<longrightarrow>
      invoke U Delete (snd (invoke U (Count alias) b)) =
        (Inr (), b\<lparr>d_type := ''DELETE''\<rparr>)) \<and>
   (d_type b = '''' \<and> establishes c \<longrightarrow>
      d_type (snd (invoke U c b)) = kind_of c \<and> kind_of c \<noteq> '''') \<and>
   (\<not> establishes c \<longrightarrow> d_type (snd (invoke U c b)) = d_type b) \<and>
   (d_type b \<noteq> '''' \<and> establishes c \<longrightarrow>
      invoke U c b = (Inl (AssertionError (cannot_change (d_type b))), b)) \<and>
   (d_type b \<noteq> '''' \<longrightarrow> d_type (snd (chain U cs b)) = d_type b)"
proof -
  have cnt: "invoke U (Count alias) b =
               (Inl (TypeError ''query.count is not a function''), b)"
    by (simp add: QueryBuilder_count_def)
  have del: "d_type b = '''' \<longrightarrow>
      invoke U Delete (snd (invoke U (Count alias) b)) =
        (Inr (), b\<lparr>d_type := ''DELETE''\<rparr>)"
    by (simp add: QueryBuilder_count_def QueryBuilder_delete_def)
  from cnt del establishing_sets_type [of b c U] kind_of_nonempty [of c]
    modifier_keeps_type [of c U b]
    establishing_rejected [of b c U] chain_keeps_type [of b U cs]
  show ?thesis by blast
qed

text \<open>At \<open>count('c')\<close> followed by \<open>delete()\<close> on a fresh builder; and, for the methods the
  class defines, at \<open>delete()\<close> and \<open>limit(1)\<close> on a fresh builder and at \<open>select('name')\<close>
  and the chain \<open>limit(1).sql('SELECT 1').count('c').skip(2)\<close> after \<open>delete()\<close>.\<close>

theorem C6_count_undefined_kind_set_once_witness:
  "d_type (initial ''test1'') = '''' \<and>
   invoke spec_utils (Count (JStr ''c'')) (initial ''test1'') =
     (Inl (TypeError ''query.count is not a function''), initial ''test1'') \<and>
   invoke spec_utils Delete (snd (invoke spec_utils (Count (JStr ''c'')) (initial ''test1''))) =
     (Inr (), (initial ''test1'')\<lparr>d_type := ''DELETE''\<rparr>) \<and>
   establishes Delete \<and>
   d_type (snd (invoke spec_utils Delete (initial ''test1''))) = ''DELETE'' \<and>
   \<not> establishes (Limit 1) \<and>
   d_type (snd (invoke spec_utils (Limit 1) (initial ''test1''))) = '''' \<and>
   establishes (Select [JStr ''name'']) \<and>
   invoke spec_utils (Select [JStr ''name''])
       (snd (invoke spec_utils Delete (initial ''test1''))) =
     (Inl (AssertionError (cannot_change ''DELETE'')),
      snd (invoke spec_utils Delete (initial ''test1''))) \<and>
   d_type (snd (chain spec_utils [Limit 1, Sql ''SELECT 1'', Count (JStr ''c''), Skip 2]
                  (snd (invoke spec_utils Delete (initial ''test1''))))) = ''DELETE''"
proof -
  let ?b = "snd (invoke spec_utils Delete (initial ''test1''))"
  have t0: "d_type (initial ''test1'') = ''''"
    by (simp add: initial_def)
  have t1: "d_type ?b = ''DELETE''"
    by (simp add: QueryBuilder_delete_def initial_def)
  from C6_count_undefined_kind_set_once
         [of spec_utils "JStr ''c''" "initial ''test1''" Delete "[]"]
       C6_count_undefined_kind_set_once
         [of spec_utils "JStr ''c''" "initial ''test1''" "Limit 1" "[]"]
       C6_count_undefined_kind_set_once
         [of spec_utils "JStr ''c''" ?b "Select [JStr ''name'']"
             "[Limit 1, Sql ''SELECT 1'', Count (JStr ''c''), Skip 2]"]
       t0 t1
  show ?thesis by simp
qed


section \<open>C7: \<open>update\<close> with no arguments\<close>

text \<open>
  C7 (what the code does instead).  The claim has \<open>update()\<close> succeed and a later
  \<open>build()\<close> fail with "update data cannot be empty".  \<open>update\<close> asserts its first
  argument right after setting the kind: on a builder with no statement kind yet,
  \<open>update()\<close> throws "missing update data" and leaves the kind at UPDATE.  \<open>build\<close> has
  no check of the update text: on the builder that call leaves, it returns a
  statement.
\<close>

theorem C7_update_without_data_throws:
  assumes "d_type b = ''''"
  shows "QueryBuilder_update U JUndefined values b =
           (Inl (AssertionError ''missing update data''), b\<lparr>d_type := ''UPDATE''\<rparr>) \<and>
         (\<exists>s. QueryBuilder_build U (b\<lparr>d_type := ''UPDATE''\<rparr>) =
                 (Inr s, b\<lparr>d_type := ''UPDATE''\<rparr>))"
  using assms by (simp add: QueryBuilder_update_def QueryBuilder_build_def Let_def)

text \<open>At \<open>update()\<close> on table test1; \<open>build\<close> on the builder it leaves interpolates the
  \<open>null\<close> update text.\<close>

theorem C7_update_without_data_throws_witness:
  "d_type (initial ''test1'') = '''' \<and>
   QueryBuilder_update spec_utils JUndefined JUndefined (initial ''test1'') =
     (Inl (AssertionError ''missing update data''),
      (initial ''test1'')\<lparr>d_type := ''UPDATE''\<rparr>) \<and>
   fst (QueryBuilder_build spec_utils ((initial ''test1'')\<lparr>d_type := ''UPDATE''\<rparr>)) =
     Inr ''UPDATE `test1` SET null WHERE''"
proof -
  have t: "d_type (initial ''test1'') = ''''"
    by (simp add: initial_def)
  have v: "fst (QueryBuilder_build spec_utils ((initial ''test1'')\<lparr>d_type := ''UPDATE''\<rparr>)) =
     Inr ''UPDATE `test1` SET null WHERE''"
    by code_simp
  from C7_update_without_data_throws [OF t, of spec_utils JUndefined] t v
  show ?thesis by simp
qed


section \<open>C8: \<open>select\<close> with no columns\<close>

text \<open>
  C8 (what the code does instead).  The claim has a SELECT whose projection was never
  supplied render \<open>*\<close>.  The constructor sets \<open>fields\<close> to \<open>*\<close>, but \<open>select()\<close> assigns the
  join of its (empty) argument list: on a builder with no statement kind yet,
  \<open>select()\<close> succeeds and leaves the empty string as projection, and with no
  conditions, order or limit \<open>build\<close> renders SELECT, two spaces, FROM, the table
  and WHERE.
\<close>

theorem C8_select_without_columns:
  assumes "d_type b = ''''"
  shows "QueryBuilder_select U [] b =
           (Inr (), b\<lparr>d_type := ''SELECT'', d_fields := ''''\<rparr>) \<and>
         (d_conditions b = [] \<and> d_orderBy b = [] \<and> d_limit b = [] \<longrightarrow>
            fst (QueryBuilder_build U (snd (QueryBuilder_select U [] b))) =
              Inr (''SELECT  FROM '' @ sqlEscapeId U (tableName b) @ '' WHERE''))"
proof -
  let ?t = "sqlEscapeId U (tableName b)"
  have sel: "QueryBuilder_select U [] b =
               (Inr (), b\<lparr>d_type := ''SELECT'', d_fields := ''''\<rparr>)"
    using assms by (simp add: QueryBuilder_select_def)
  have "trim (CHR ''S'' # (''ELECT  FROM '' @ ?t @ '' WHER'') @ CHR ''E'' # ''   '') =
        CHR ''S'' # (''ELECT  FROM '' @ ?t @ '' WHER'') @
          CHR ''E'' # rev (dropWhile is_space (rev ''   ''))"
    by (rule trim_between) simp_all
  then have "trim (''SELECT  FROM '' @ ?t @ '' WHERE   '') =
             ''SELECT  FROM '' @ ?t @ '' WHERE''"
    by simp
  then show ?thesis
    unfolding sel by (simp add: QueryBuilder_build_def Let_def)
qed

text \<open>At \<open>select().build()\<close> on table test1, whose projection was \<open>*\<close> before the call.\<close>

theorem C8_select_without_columns_witness:
  "d_type (initial ''test1'') = '''' \<and>
   d_conditions (initial ''test1'') = [] \<and> d_orderBy (initial ''test1'') = [] \<and>
   d_limit (initial ''test1'') = [] \<and>
   d_fields (initial ''test1'') = ''*'' \<and>
   d_fields (snd (QueryBuilder_select spec_utils [] (initial ''test1''))) = '''' \<and>
   fst (QueryBuilder_build spec_utils
          (snd (QueryBuilder_select spec_utils [] (initial ''test1'')))) =
     Inr ''SELECT  FROM `test1` WHERE''"
proof -
  have t: "d_type (initial ''test1'') = ''''"
    by (simp add: initial_def)
  have o: "d_conditions (initial ''test1'') = []" "d_orderBy (initial ''test1'') = []"
    "d_limit (initial ''test1'') = []" "d_fields (initial ''test1'') = ''*''"
    by (simp_all add: initial_def)
  have e: "sqlEscapeId spec_utils (tableName (initial ''test1'')) = ''`test1`''"
    by (simp add: initial_def spec_utils_def escapeIdentifier_def)
  note th = C8_select_without_columns [OF t, of spec_utils]
  have s: "d_fields (snd (QueryBuilder_select spec_utils [] (initial ''test1''))) = ''''"
    using th [THEN conjunct1] by simp
  have v: "fst (QueryBuilder_build spec_utils
                  (snd (QueryBuilder_select spec_utils [] (initial ''test1'')))) =
             Inr ''SELECT  FROM `test1` WHERE''"
    using th [THEN conjunct2] o e by simp
  from t o s v show ?thesis by blast
qed


section \<open>C9: a failed validation leaves the kind set\<close>

text \<open>
  C9.  On a builder with no statement kind yet: \<open>update\<close> with a falsy first argument
  (a missing one is \<open>undefined\<close>), or with a truthy one that is neither a string nor
  an object, throws, and the builder it leaves differs from the old one in the kind
  only, which is UPDATE; \<open>insert\<close> with falsy data or with the empty array throws and
  leaves the kind at INSERT.  On the builder such a call leaves, and after any
  further chain of calls on it, every statement-establishing call fails with "cannot
  change query type after it was set to ..." and changes nothing.
\<close>

theorem C9_failed_validation_keeps_kind:
  assumes "d_type b = ''''" and "establishes c"
  shows "(\<not> truthy u \<longrightarrow>
            QueryBuilder_update U u v b =
              (Inl (AssertionError ''missing update data''), b\<lparr>d_type := ''UPDATE''\<rparr>)) \<and>
         (truthy u \<and> typeof u \<noteq> ''string'' \<and> typeof u \<noteq> ''object'' \<longrightarrow>
            QueryBuilder_update U u v b =
              (Inl (AssertionError ''first parameter must be a string or array''),
               b\<lparr>d_type := ''UPDATE''\<rparr>)) \<and>
         (\<not> truthy data \<longrightarrow>
            QueryBuilder_insert U data b =
              (Inl (AssertionError ''missing data''), b\<lparr>d_type := ''INSERT''\<rparr>)) \<and>
         QueryBuilder_insert U (JArr []) b =
           (Inl (AssertionError ''data array must at least have 1 item''),
            b\<lparr>d_type := ''INSERT''\<rparr>) \<and>
         invoke U c (snd (chain U cs (b\<lparr>d_type := ''UPDATE''\<rparr>))) =
           (Inl (AssertionError (cannot_change ''UPDATE'')),
            snd (chain U cs (b\<lparr>d_type := ''UPDATE''\<rparr>))) \<and>
         invoke U c (snd (chain U cs (b\<lparr>d_type := ''INSERT''\<rparr>))) =
           (Inl (AssertionError (cannot_change ''INSERT'')),
            snd (chain U cs (b\<lparr>d_type := ''INSERT''\<rparr>)))"
proof -
  have upd: "d_type (snd (chain U cs (b\<lparr>d_type := ''UPDATE''\<rparr>))) = ''UPDATE''"
    using chain_keeps_type [of "b\<lparr>d_type := ''UPDATE''\<rparr>" U cs] by simp
  have ins: "d_type (snd (chain U cs (b\<lparr>d_type := ''INSERT''\<rparr>))) = ''INSERT''"
    using chain_keeps_type [of "b\<lparr>d_type := ''INSERT''\<rparr>" U cs] by simp
  have rej_u: "invoke U c (snd (chain U cs (b\<lparr>d_type := ''UPDATE''\<rparr>))) =
           (Inl (AssertionError (cannot_change ''UPDATE'')),
            snd (chain U cs (b\<lparr>d_type := ''UPDATE''\<rparr>)))"
    using establishing_rejected [of "snd (chain U cs (b\<lparr>d_type := ''UPDATE''\<rparr>))" c U]
      upd assms(2) by simp
  have rej_i: "invoke U c (snd (chain U cs (b\<lparr>d_type := ''INSERT''\<rparr>))) =
           (Inl (AssertionError (cannot_change ''INSERT'')),
            snd (chain U cs (b\<lparr>d_type := ''INSERT''\<rparr>)))"
    using establishing_rejected [of "snd (chain U cs (b\<lparr>d_type := ''INSERT''\<rparr>))" c U]
      ins assms(2) by simp
  have u1: "\<not> truthy u \<longrightarrow>
            QueryBuilder_update U u v b =
              (Inl (AssertionError ''missing update data''), b\<lparr>d_type := ''UPDATE''\<rparr>)"
    using assms(1) by (simp add: QueryBuilder_update_def)
  have u2: "truthy u \<and> typeof u \<noteq> ''string'' \<and> typeof u \<noteq> ''object'' \<longrightarrow>
            QueryBuilder_update U u v b =
              (Inl (AssertionError ''first parameter must be a string or array''),
               b\<lparr>d_type := ''UPDATE''\<rparr>)"
    using assms(1) by (simp add: QueryBuilder_update_def)
  have i1: "\<not> truthy data \<longrightarrow>
            QueryBuilder_insert U data b =
              (Inl (AssertionError ''missing data''), b\<lparr>d_type := ''INSERT''\<rparr>)"
    using assms(1) by (simp add: QueryBuilder_insert_def)
  have i2: "QueryBuilder_insert U (JArr []) b =
           (Inl (AssertionError ''data array must at least have 1 item''),
            b\<lparr>d_type := ''INSERT''\<rparr>)"
    using assms(1) by (simp add: QueryBuilder_insert_def)
  from u1 u2 i1 i2 rej_u rej_i show ?thesis by blast
qed

text \<open>At \<open>update()\<close>, \<open>update(5)\<close>, \<open>insert()\<close> and \<open>insert([])\<close> on a fresh builder, each
  followed by \<open>delete()\<close>.\<close>

theorem C9_failed_validation_keeps_kind_witness:
  "d_type (initial ''test1'') = '''' \<and> establishes Delete \<and>
   \<not> truthy JUndefined \<and>
   truthy (JNum 5) \<and> typeof (JNum 5) \<noteq> ''string'' \<and> typeof (JNum 5) \<noteq> ''object'' \<and>
   QueryBuilder_update spec_utils JUndefined JUndefined (initial ''test1'') =
     (Inl (AssertionError ''missing update data''),
      (initial ''test1'')\<lparr>d_type := ''UPDATE''\<rparr>) \<and>
   QueryBuilder_update spec_utils (JNum 5) JUndefined (initial ''test1'') =
     (Inl (AssertionError ''first parameter must be a string or array''),
      (initial ''test1'')\<lparr>d_type := ''UPDATE''\<rparr>) \<and>
   QueryBuilder_insert spec_utils JUndefined (initial ''test1'') =
     (Inl (AssertionError ''missing data''), (initial ''test1'')\<lparr>d_type := ''INSERT''\<rparr>) \<and>
   QueryBuilder_insert spec_utils (JArr []) (initial ''test1'') =
     (Inl (AssertionError ''data array must at least have 1 item''),
      (initial ''test1'')\<lparr>d_type := ''INSERT''\<rparr>) \<and>
   invoke spec_utils Delete
       (snd (chain spec_utils [] ((initial ''test1'')\<lparr>d_type := ''UPDATE''\<rparr>))) =
     (Inl (AssertionError (cannot_change ''UPDATE'')),
      snd (chain spec_utils [] ((initial ''test1'')\<lparr>d_type := ''UPDATE''\<rparr>))) \<and>
   invoke spec_utils Delete
       (snd (chain spec_utils [] ((initial ''test1'')\<lparr>d_type := ''INSERT''\<rparr>))) =
     (Inl (AssertionError (cannot_change ''INSERT'')),
      snd (chain spec_utils [] ((initial ''test1'')\<lparr>d_type := ''INSERT''\<rparr>)))"
proof -
  have t: "d_type (initial ''test1'') = ''''"
    by (simp add: initial_def)
  have e: "establishes Delete"
    by simp
  from C9_failed_validation_keeps_kind
         [OF t e, of JUndefined spec_utils JUndefined JUndefined "[]"]
       C9_failed_validation_keeps_kind
         [OF t e, of "JNum 5" spec_utils JUndefined JUndefined "[]"]
       t
  show ?thesis by simp
qed


section \<open>C10: \<open>build\<close> reads only\<close>

text \<open>
  C10.  \<open>build()\<close> leaves every field of the builder (table name, kind, fields,
  conditions, update and insert texts, order, skip and limit state) as it was, and
  a second call right after the first returns the same result.  This holds in every
  state, so in each one where \<open>build()\<close> succeeds, and whatever the helpers are.
\<close>

theorem C10_build_read_only:
  "snd (QueryBuilder_build U b) = b \<and>
   QueryBuilder_build U (snd (QueryBuilder_build U b)) = QueryBuilder_build U b"
  by (simp add: QueryBuilder_build_def Let_def split: option.splits)

end
